theory Spec2Isabelle
  imports Complex_Main "HOL-Library.AList"
begin

section \<open>Data model\<close>

text \<open>
  Exceptions of the Python source as values. \<open>IndexError\<close>, \<open>TypeError\<close> and
  \<open>ZeroDivisionError\<close> are raised by the interpreter and by numpy indexing;
  \<open>ValueError\<close> stands for a failure raised inside a library call.
\<close>

datatype error = IndexError | TypeError | ZeroDivisionError | ValueError

text \<open>
  A Python float: the value \<open>nan\<close> or a finite number. Finite floats are read as the
  reals they denote (rounding of float arithmetic and the infinities are left out).
\<close>

datatype pyfloat = NaN | Fin real

text \<open>
  The argument \<open>n\<close> of \<open>rank_n_accuracy\<close> is a Python number: an \<open>int\<close> or a
  \<open>float\<close>.
\<close>

datatype pynum = PyInt int | PyFloat real

text \<open>
  A two-dimensional numpy array: \<open>shape[1]\<close> is \<open>ncols\<close>, \<open>shape[0]\<close> is the number
  of rows; every row has \<open>ncols\<close> entries.
\<close>

record 'a matrix =
  ncols :: nat
  mrows :: "'a list list"

definition then_do :: "error + 'a \<Rightarrow> ('a \<Rightarrow> error + 'b) \<Rightarrow> error + 'b" where
  "then_do m f = (case m of Inl e \<Rightarrow> Inl e | Inr x \<Rightarrow> f x)"

section \<open>numpy operations used by the source\<close>

text \<open>\<open>np.unique(y)\<close>: the sorted distinct values of \<open>y\<close>.\<close>

definition np_unique :: "int list \<Rightarrow> int list" where
  "np_unique y = sort (remdups y)"

text \<open>\<open>np.zeros((s, c))\<close>.\<close>

definition zeros :: "nat \<Rightarrow> nat \<Rightarrow> int matrix" where
  "zeros s c = \<lparr>ncols = c, mrows = replicate s (replicate c 0)\<rparr>"

text \<open>The assignment \<open>m[:, i] = v\<close> for a vector \<open>v\<close> with one entry per row.\<close>

definition set_column :: "'a matrix \<Rightarrow> nat \<Rightarrow> 'a list \<Rightarrow> 'a matrix" where
  "set_column m i v = m\<lparr>mrows := map (\<lambda>(r, x). r[i := x]) (zip (mrows m) v)\<rparr>"

text \<open>\<open>(y == cls).astype(int)\<close>.\<close>

definition eq_mask :: "int list \<Rightarrow> int \<Rightarrow> int list" where
  "eq_mask y cls = map (\<lambda>l. if l = cls then 1 else 0) y"

text \<open>
  A Python slice \<open>xs[:k]\<close>: the first \<open>k\<close> items for \<open>k \<ge> 0\<close> (all of them when
  \<open>k\<close> exceeds the length), all but the last \<open>-k\<close> items for \<open>k < 0\<close>.
\<close>

definition slice_to :: "int \<Rightarrow> 'a list \<Rightarrow> 'a list" where
  "slice_to k xs = (if 0 \<le> k then take (nat k) xs else take (length xs - nat (- k)) xs)"

text \<open>
  \<open>np.argsort(-row)\<close> on a row of \<open>c\<close> entries: the column indices by descending
  score, \<open>nan\<close> entries last. Equal scores are kept in column order.
\<close>

definition is_nan :: "pyfloat \<Rightarrow> bool" where
  "is_nan x = (case x of NaN \<Rightarrow> True | Fin _ \<Rightarrow> False)"

definition neg_key :: "pyfloat \<Rightarrow> real" where
  "neg_key x = (case x of NaN \<Rightarrow> 0 | Fin r \<Rightarrow> - r)"

definition argsort_desc :: "nat \<Rightarrow> pyfloat list \<Rightarrow> nat list" where
  "argsort_desc c row =
     sort_key (\<lambda>j. neg_key (row ! j)) (filter (\<lambda>j. \<not> is_nan (row ! j)) [0..<c])
     @ filter (\<lambda>j. is_nan (row ! j)) [0..<c]"

text \<open>
  Python 3's \<open>round\<close> on a float: to the nearest integer, a tie to the even one.
\<close>

definition py_round :: "real \<Rightarrow> int" where
  "py_round x =
     (let f = \<lfloor>x\<rfloor>; d = x - of_int f
      in if d < 1 / 2 then f else if 1 / 2 < d then f + 1 else if even f then f else f + 1)"

section \<open>rank_n_accuracy\<close>

text \<open>
  The top-K count that \<open>rank_n_accuracy\<close> derives from \<open>n\<close>:
  \<open>if n < 1: n = int(round(n_classes * n))\<close>. A float \<open>n \<ge> 1\<close> reaches the slice
  \<open>rankings[:, :n]\<close> unchanged, where numpy raises \<open>TypeError\<close>.
\<close>

definition top_k :: "nat \<Rightarrow> pynum \<Rightarrow> error + int" where
  "top_k n_classes n =
     (case n of
        PyInt i \<Rightarrow> if i < 1 then Inr (int n_classes * i) else Inr i
      | PyFloat q \<Rightarrow> if q < 1 then Inr (py_round (real n_classes * q)) else Inl TypeError)"

text \<open>
  The counting loop \<open>for i in range(num_samples)\<close>; \<open>rankings[i, :]\<close> raises
  \<open>IndexError\<close> past the last row.
\<close>

fun rank_loop :: "int list \<Rightarrow> nat list list \<Rightarrow> nat list \<Rightarrow> real \<Rightarrow> error + real" where
  "rank_loop y_true rankings [] correct_sample_count = Inr correct_sample_count"
| "rank_loop y_true rankings (i # rest) correct_sample_count =
     (if length rankings \<le> i then Inl IndexError
      else rank_loop y_true rankings rest
             (if y_true ! i \<in> set (map int (rankings ! i))
              then correct_sample_count + 1 else correct_sample_count))"

definition rank_n_accuracy :: "int list \<Rightarrow> pyfloat matrix \<Rightarrow> pynum \<Rightarrow> error + pyfloat" where
  "rank_n_accuracy y_true y_prob_mat n =
     (let n_classes = ncols y_prob_mat in
      then_do (top_k n_classes n) (\<lambda>k.
        let rankings = map (\<lambda>row. slice_to k (argsort_desc n_classes row)) (mrows y_prob_mat);
            num_samples = length y_true
        in then_do (rank_loop y_true rankings [0..<num_samples] 0) (\<lambda>correct_sample_count.
             if num_samples = 0 then Inl ZeroDivisionError
             else Inr (Fin (correct_sample_count / real num_samples)))))"

section \<open>get_per_class_matrix\<close>

text \<open>
  \<open>classes = classes or np.unique(y)\<close>: \<open>None\<close> and the empty sequence are both
  falsy. The loop fills one column per class.
\<close>

definition class_set :: "int list \<Rightarrow> int list option \<Rightarrow> int list" where
  "class_set y classes =
     (case classes of None \<Rightarrow> np_unique y
      | Some cs \<Rightarrow> if cs = [] then np_unique y else cs)"

definition get_per_class_matrix :: "int list \<Rightarrow> int list option \<Rightarrow> int matrix" where
  "get_per_class_matrix y classes =
     (let classes' = class_set y classes;
          y_bin = zeros (length y) (length classes')
      in fold (\<lambda>(i, cls) y_bin. set_column y_bin i (eq_mask y cls))
              (enumerate 0 classes') y_bin)"

text \<open>Column \<open>j\<close> of a matrix, and its sum.\<close>

definition col :: "'a matrix \<Rightarrow> nat \<Rightarrow> 'a list" where
  "col m j = map (\<lambda>r. r ! j) (mrows m)"

definition col_sum :: "int matrix \<Rightarrow> nat \<Rightarrow> int" where
  "col_sum m j = sum_list (col m j)"

section \<open>Metric results and the library primitives\<close>

text \<open>
  Modelled from the spec: the metric-name enumeration \<open>atm.constants.Metrics\<close>, imported
  by the source and used as \<open>Metrics.ACCURACY\<close>, ..., whose string values are not in the
  source file. The spec calls it a closed enumeration, so its members are distinct
  constructors; \<open>CLASS_WISE\<close> is the literal key \<open>'class_wise'\<close> of the source.
\<close>

datatype metric_key =
    ACCURACY | RANK_ACCURACY | COHEN_KAPPA | F1 | F1_MICRO | F1_MACRO
  | ROC_AUC | ROC_AUC_MICRO | ROC_AUC_MACRO | AP | MCC | PR_CURVE | ROC_CURVE
  | CLASS_WISE

text \<open>
  A value stored in a result dict: a float, a curve (a dict of three named lists) or
  the per-class dict. Dicts are association lists in insertion order, written with
  \<open>AList.update\<close> and read with \<open>map_of\<close>.
\<close>

datatype mvalue =
    Scalar pyfloat
  | Curve "(string \<times> pyfloat list) list"
  | ClassWise "(int \<times> (metric_key \<times> mvalue) list) list"

type_synonym results = "(metric_key \<times> mvalue) list"

datatype average = Binary | Micro | Macro

text \<open>
  The functions imported from \<open>sklearn.metrics\<close> are parameters of the model. Each
  may raise. \<open>roc_curve\<close> and \<open>precision_recall_curve\<close> take the labels, the scores
  and \<open>pos_label\<close>, and return three arrays.
\<close>

record curve_lib =
  roc_curve :: "int list \<Rightarrow> pyfloat list \<Rightarrow> int
                  \<Rightarrow> error + (pyfloat list \<times> pyfloat list \<times> pyfloat list)"
  precision_recall_curve :: "int list \<Rightarrow> pyfloat list \<Rightarrow> int
                  \<Rightarrow> error + (pyfloat list \<times> pyfloat list \<times> pyfloat list)"

record sklearn = curve_lib +
  accuracy_score :: "int list \<Rightarrow> int list \<Rightarrow> error + pyfloat"
  cohen_kappa_score :: "int list \<Rightarrow> int list \<Rightarrow> error + pyfloat"
  f1_score :: "int list \<Rightarrow> int list \<Rightarrow> average \<Rightarrow> error + pyfloat"
  matthews_corrcoef :: "int list \<Rightarrow> int list \<Rightarrow> error + pyfloat"
  roc_auc_score :: "int matrix \<Rightarrow> pyfloat matrix \<Rightarrow> average \<Rightarrow> error + pyfloat"
  average_precision_score :: "int matrix \<Rightarrow> pyfloat matrix \<Rightarrow> error + pyfloat"

text \<open>\<open>np.any(np.isnan(m))\<close>.\<close>

definition any_isnan :: "pyfloat matrix \<Rightarrow> bool" where
  "any_isnan m = list_ex (list_ex is_nan) (mrows m)"

text \<open>
  numpy column indexing. \<open>m[:, j]\<close> takes column \<open>j\<close>; a negative index counts from
  the last column; an index outside \<open>[-c, c)\<close> raises \<open>IndexError\<close>.
  \<open>m[:, js]\<close> with an index array takes the listed columns in the listed order.
\<close>

definition norm_index :: "nat \<Rightarrow> int \<Rightarrow> error + nat" where
  "norm_index c j =
     (let j' = (if j < 0 then j + int c else j)
      in if 0 \<le> j' \<and> j' < int c then Inr (nat j') else Inl IndexError)"

definition get_column :: "'a matrix \<Rightarrow> int \<Rightarrow> error + 'a list" where
  "get_column m j = then_do (norm_index (ncols m) j) (\<lambda>j'. Inr (col m j'))"

fun norm_indices :: "nat \<Rightarrow> int list \<Rightarrow> error + nat list" where
  "norm_indices c [] = Inr []"
| "norm_indices c (j # js) =
     then_do (norm_index c j) (\<lambda>j'. then_do (norm_indices c js) (\<lambda>js'. Inr (j' # js')))"

definition take_columns :: "'a matrix \<Rightarrow> int list \<Rightarrow> error + 'a matrix" where
  "take_columns m js =
     then_do (norm_indices (ncols m) js) (\<lambda>js'.
       Inr \<lparr>ncols = length js', mrows = map (\<lambda>r. map (\<lambda>j. r ! j) js') (mrows m)\<rparr>)"

text \<open>\<open>1 - v\<close> on a float vector and \<open>np.column_stack((a, b))\<close>.\<close>

definition one_minus :: "pyfloat \<Rightarrow> pyfloat" where
  "one_minus x = (case x of NaN \<Rightarrow> NaN | Fin r \<Rightarrow> Fin (1 - r))"

definition negate :: "pyfloat \<Rightarrow> pyfloat" where
  "negate x = (case x of NaN \<Rightarrow> NaN | Fin r \<Rightarrow> Fin (- r))"

definition column_stack :: "'a list \<Rightarrow> 'a list \<Rightarrow> 'a matrix" where
  "column_stack a b = \<lparr>ncols = 2, mrows = map (\<lambda>(x, y). [x, y]) (zip a b)\<rparr>"

text \<open>\<open>d.update(e)\<close> on dicts.\<close>

definition dict_update :: "('k \<times> 'v) list \<Rightarrow> ('k \<times> 'v) list \<Rightarrow> ('k \<times> 'v) list" where
  "dict_update d e = fold (\<lambda>(k, v). AList.update k v) e d"

section \<open>get_pr_roc_curves\<close>

definition get_pr_roc_curves :: "'z curve_lib_scheme \<Rightarrow> int list \<Rightarrow> pyfloat list \<Rightarrow> error + results" where
  "get_pr_roc_curves sk y_true y_pred_probs =
     then_do (roc_curve sk y_true y_pred_probs 1) (\<lambda>roc.
       let results = AList.update ROC_CURVE
             (Curve [(''fprs'', fst roc), (''tprs'', fst (snd roc)),
                     (''thresholds'', snd (snd roc))]) []
       in then_do (precision_recall_curve sk y_true y_pred_probs 1) (\<lambda>pr.
         Inr (AList.update PR_CURVE
               (Curve [(''precisions'', fst pr), (''recalls'', fst (snd pr)),
                       (''thresholds'', snd (snd pr))]) results)))"

text \<open>The lengths of the three sequences stored under a curve key.\<close>

definition curve_lengths :: "results \<Rightarrow> metric_key \<Rightarrow> nat list option" where
  "curve_lengths res k =
     (case map_of res k of Some (Curve c) \<Rightarrow> Some (map (\<lambda>(name, xs). length xs) c)
      | _ \<Rightarrow> None)"

section \<open>get_metrics_binary\<close>

definition get_metrics_binary ::
  "sklearn \<Rightarrow> int list \<Rightarrow> int list \<Rightarrow> pyfloat matrix \<Rightarrow> bool \<Rightarrow> error + results" where
  "get_metrics_binary sk y_true y_pred y_pred_probs include_curves =
     then_do (accuracy_score sk y_true y_pred) (\<lambda>acc.
     then_do (cohen_kappa_score sk y_true y_pred) (\<lambda>kappa.
     then_do (f1_score sk y_true y_pred Binary) (\<lambda>f1.
     then_do (matthews_corrcoef sk y_true y_pred) (\<lambda>mcc.
       let results = [(ACCURACY, Scalar acc), (COHEN_KAPPA, Scalar kappa), (F1, Scalar f1),
                      (MCC, Scalar mcc), (ROC_AUC, Scalar NaN), (AP, Scalar NaN)];
           all_labels_same = (length (np_unique y_true) = 1);
           any_probs_nan = any_isnan y_pred_probs
       in if \<not> any_probs_nan then
            let y_true_bin = get_per_class_matrix y_true (Some [0, 1]) in
            then_do (average_precision_score sk y_true_bin y_pred_probs) (\<lambda>ap.
            let results = AList.update AP (Scalar ap) results in
            then_do (if \<not> all_labels_same
                     then then_do (roc_auc_score sk y_true_bin y_pred_probs Macro) (\<lambda>auc.
                            Inr (AList.update ROC_AUC (Scalar auc) results))
                     else Inr results) (\<lambda>results.
            if include_curves
            then then_do (get_column y_pred_probs 1) (\<lambda>p1.
                 then_do (get_pr_roc_curves sk y_true p1) (\<lambda>curves.
                   Inr (dict_update results curves)))
            else Inr results))
          else Inr results))))"

section \<open>get_metrics_multiclass\<close>

text \<open>
  The loop over \<open>all_classes\<close> that fills \<open>results['class_wise']\<close>: the class's
  column of the scores becomes a two-column matrix \<open>[1 - p, p]\<close>, and
  \<open>get_metrics_binary\<close> runs on the class's indicator columns.
\<close>

fun class_wise_loop ::
  "sklearn \<Rightarrow> int matrix \<Rightarrow> int matrix \<Rightarrow> pyfloat matrix \<Rightarrow> bool \<Rightarrow> int list
     \<Rightarrow> (int \<times> results) list \<Rightarrow> error + (int \<times> results) list" where
  "class_wise_loop sk y_true_bin y_pred_bin y_pred_probs include_curves [] class_wise =
     Inr class_wise"
| "class_wise_loop sk y_true_bin y_pred_bin y_pred_probs include_curves (cls # rest) class_wise =
     then_do (get_column y_pred_probs cls) (\<lambda>p.
       let class_pred_probs = column_stack (map one_minus p) p in
       then_do (get_column y_true_bin cls) (\<lambda>yt.
       then_do (get_column y_pred_bin cls) (\<lambda>yp.
       then_do (get_metrics_binary sk yt yp class_pred_probs include_curves) (\<lambda>class_res.
         class_wise_loop sk y_true_bin y_pred_bin y_pred_probs include_curves rest
           (AList.update cls class_res class_wise)))))"

text \<open>
  The block "if possible, compute multi-label AUC metrics" first builds the two
  arguments of its \<open>roc_auc_score\<close> calls: the indicator matrix over the classes
  present and \<open>y_pred_probs[:, present_classes]\<close>.
\<close>

definition auc_arguments :: "int list \<Rightarrow> pyfloat matrix \<Rightarrow> error + (int matrix \<times> pyfloat matrix)" where
  "auc_arguments y_true y_pred_probs =
     (let present_classes = np_unique y_true;
          y_true_bin = get_per_class_matrix y_true None
      in then_do (take_columns y_pred_probs present_classes) (\<lambda>filtered_probs.
           Inr (y_true_bin, filtered_probs)))"

definition get_metrics_multiclass ::
  "sklearn \<Rightarrow> int list \<Rightarrow> int list \<Rightarrow> pyfloat matrix \<Rightarrow> bool \<Rightarrow> bool \<Rightarrow> error + results" where
  "get_metrics_multiclass sk y_true y_pred y_pred_probs include_per_class include_curves =
     then_do (accuracy_score sk y_true y_pred) (\<lambda>acc.
     then_do (cohen_kappa_score sk y_true y_pred) (\<lambda>kappa.
     then_do (f1_score sk y_true y_pred Micro) (\<lambda>f1_micro.
     then_do (f1_score sk y_true y_pred Macro) (\<lambda>f1_macro.
       let results = [(ACCURACY, Scalar acc), (COHEN_KAPPA, Scalar kappa),
                      (F1_MICRO, Scalar f1_micro), (F1_MACRO, Scalar f1_macro),
                      (ROC_AUC_MICRO, Scalar NaN), (ROC_AUC_MACRO, Scalar NaN),
                      (RANK_ACCURACY, Scalar NaN)]
       in
     then_do (rank_n_accuracy y_true y_pred_probs (PyFloat (33 / 100))) (\<lambda>rank.
       let results = AList.update RANK_ACCURACY (Scalar rank) results;
           present_classes = np_unique y_true;
           all_labels_same = (length present_classes = 1);
           any_probs_nan = any_isnan y_pred_probs
       in
     then_do (if \<not> (all_labels_same \<or> any_probs_nan)
              then then_do (auc_arguments y_true y_pred_probs) (\<lambda>(y_true_bin, filtered_probs).
                   then_do (roc_auc_score sk y_true_bin filtered_probs Micro) (\<lambda>micro.
                   then_do (roc_auc_score sk y_true_bin filtered_probs Macro) (\<lambda>macro.
                     Inr (AList.update ROC_AUC_MACRO (Scalar macro)
                           (AList.update ROC_AUC_MICRO (Scalar micro) results)))))
              else Inr results) (\<lambda>results.
       if include_per_class \<or> include_curves
       then let all_classes = map int [0..<ncols y_pred_probs];
                y_true_bin = get_per_class_matrix y_true (Some all_classes);
                y_pred_bin = get_per_class_matrix y_pred (Some all_classes)
            in then_do (class_wise_loop sk y_true_bin y_pred_bin y_pred_probs include_curves
                          all_classes []) (\<lambda>class_wise.
                 Inr (AList.update CLASS_WISE
                       (ClassWise class_wise) results))
       else Inr results))))))"

section \<open>test_pipeline and cross_validate_pipeline\<close>

text \<open>
  The pipeline is an opaque object with state \<open>'p\<close> over samples \<open>'x\<close>; its methods
  are parameters. \<open>decision_function\<close> returns a score vector for a two-class
  estimator and a score matrix otherwise: the two uses of the source are the two
  fields \<open>decision_function_binary\<close> and \<open>decision_function_multi\<close>.
  \<open>last_step_name\<close> is \<open>pipeline.steps[-1][0]\<close>.
\<close>

record ('p, 'x) pipeline_ops =
  fit :: "'p \<Rightarrow> 'x list \<Rightarrow> int list \<Rightarrow> error + 'p"
  predict :: "'p \<Rightarrow> 'x list \<Rightarrow> error + int list"
  predict_proba :: "'p \<Rightarrow> 'x list \<Rightarrow> error + pyfloat matrix"
  decision_function_binary :: "'p \<Rightarrow> 'x list \<Rightarrow> error + pyfloat list"
  decision_function_multi :: "'p \<Rightarrow> 'x list \<Rightarrow> error + pyfloat matrix"
  last_step_name :: "'p \<Rightarrow> string"

text \<open>
  The keyword arguments forwarded as \<open>**kwargs\<close>: each of the two flags is passed or
  left to its default \<open>False\<close>. \<open>get_metrics_binary\<close> has no parameter
  \<open>include_per_class\<close>, so passing it in binary mode is a \<open>TypeError\<close>.
\<close>

record kwargs =
  kw_include_per_class :: "bool option"
  kw_include_curves :: "bool option"

definition flag :: "bool option \<Rightarrow> bool" where
  "flag b = (case b of None \<Rightarrow> False | Some v \<Rightarrow> v)"

definition get_metrics ::
  "sklearn \<Rightarrow> bool \<Rightarrow> int list \<Rightarrow> int list \<Rightarrow> pyfloat matrix \<Rightarrow> kwargs \<Rightarrow> error + results" where
  "get_metrics sk binary y y_pred y_pred_probs kw =
     (if binary
      then (if kw_include_per_class kw \<noteq> None then Inl TypeError
            else get_metrics_binary sk y y_pred y_pred_probs (flag (kw_include_curves kw)))
      else get_metrics_multiclass sk y y_pred y_pred_probs
             (flag (kw_include_per_class kw)) (flag (kw_include_curves kw)))"

definition test_pipeline ::
  "sklearn \<Rightarrow> ('p, 'x) pipeline_ops \<Rightarrow> 'p \<Rightarrow> 'x list \<Rightarrow> int list \<Rightarrow> bool \<Rightarrow> kwargs
     \<Rightarrow> error + results" where
  "test_pipeline sk ops pipeline X y binary kw =
     then_do (predict ops pipeline X) (\<lambda>y_pred.
       let method = last_step_name ops pipeline in
       then_do (if method \<in> set [''sgd'', ''pa'']
                then (if binary
                      then then_do (decision_function_binary ops pipeline X) (\<lambda>class_1_distance.
                             let class_0_distance = map negate class_1_distance
                             in Inr (column_stack class_0_distance class_1_distance))
                      else decision_function_multi ops pipeline X)
                else predict_proba ops pipeline X) (\<lambda>y_pred_probs.
         get_metrics sk binary y y_pred y_pred_probs kw))"

text \<open>
  Missing from the source file: the constants of \<open>atm.constants\<close>; they are
  parameters. \<open>StratifiedKFold(n_splits).split(X, y)\<close> is a parameter that returns
  the folds as (train indices, test indices) pairs, or raises.
\<close>

record constants =
  METRICS_BINARY :: "metric_key list"
  METRICS_MULTICLASS :: "metric_key list"
  N_FOLDS_DEFAULT :: int

type_synonym 'x splitter = "int \<Rightarrow> 'x list \<Rightarrow> int list \<Rightarrow> error + (nat list \<times> nat list) list"

text \<open>\<open>a[index]\<close> with an index array: the listed items, \<open>IndexError\<close> out of range.\<close>

fun take_rows :: "'a list \<Rightarrow> nat list \<Rightarrow> error + 'a list" where
  "take_rows xs [] = Inr []"
| "take_rows xs (i # rest) =
     (if length xs \<le> i then Inl IndexError
      else then_do (take_rows xs rest) (\<lambda>r. Inr (xs ! i # r)))"

text \<open>
  The summary table: its column labels and its rows, each row a dict from column label
  to cell; a cell is \<open>None\<close> or a value. \<open>df.append(dicts)\<close> adds the rows and any
  column label not yet present.
\<close>

record dataframe =
  columns :: "metric_key list"
  rows :: "(metric_key \<times> mvalue option) list list"

definition new_dataframe :: "metric_key list \<Rightarrow> dataframe" where
  "new_dataframe cs = \<lparr>columns = cs, rows = []\<rparr>"

definition df_append :: "dataframe \<Rightarrow> (metric_key \<times> mvalue option) list list \<Rightarrow> dataframe" where
  "df_append df ds =
     \<lparr>columns = fold (\<lambda>k cs. if k \<in> set cs then cs else cs @ [k])
                    (concat (map (map fst) ds)) (columns df),
      rows = rows df @ ds\<rparr>"

text \<open>\<open>{m: split_results.get(m) for m in metrics}\<close>.\<close>

definition summary_row :: "metric_key list \<Rightarrow> results \<Rightarrow> (metric_key \<times> mvalue option) list" where
  "summary_row metrics split_results =
     fold (\<lambda>m d. AList.update m (map_of split_results m) d) metrics []"

fun cv_loop ::
  "sklearn \<Rightarrow> ('p, 'x) pipeline_ops \<Rightarrow> 'x list \<Rightarrow> int list \<Rightarrow> bool \<Rightarrow> kwargs \<Rightarrow> metric_key list
     \<Rightarrow> (nat list \<times> nat list) list \<Rightarrow> 'p \<Rightarrow> dataframe \<Rightarrow> results list
     \<Rightarrow> error + (dataframe \<times> results list \<times> 'p)" where
  "cv_loop sk ops X y binary kw metrics [] pipeline df results = Inr (df, results, pipeline)"
| "cv_loop sk ops X y binary kw metrics ((train_index, test_index) # rest) pipeline df results =
     then_do (take_rows X train_index) (\<lambda>X_train.
     then_do (take_rows y train_index) (\<lambda>y_train.
     then_do (fit ops pipeline X_train y_train) (\<lambda>pipeline.
     then_do (take_rows X test_index) (\<lambda>X_test.
     then_do (take_rows y test_index) (\<lambda>y_test.
     then_do (test_pipeline sk ops pipeline X_test y_test binary kw) (\<lambda>split_results.
       cv_loop sk ops X y binary kw metrics rest pipeline
         (df_append df [summary_row metrics split_results])
         (results @ [split_results])))))))"

text \<open>
  \<open>cross_validate_pipeline\<close> returns the table and the raw results; the fitted
  pipeline, which the source mutates in place, is returned as a third component.
\<close>

definition cross_validate_pipeline ::
  "sklearn \<Rightarrow> constants \<Rightarrow> 'x splitter \<Rightarrow> ('p, 'x) pipeline_ops \<Rightarrow> 'p \<Rightarrow> 'x list \<Rightarrow> int list
     \<Rightarrow> bool \<Rightarrow> int option \<Rightarrow> kwargs \<Rightarrow> error + (dataframe \<times> results list \<times> 'p)" where
  "cross_validate_pipeline sk consts split ops pipeline X y binary n_folds kw =
     (let n_folds = (case n_folds of None \<Rightarrow> N_FOLDS_DEFAULT consts | Some n \<Rightarrow> n);
          metrics = (if binary then METRICS_BINARY consts else METRICS_MULTICLASS consts);
          df = new_dataframe metrics;
          results = []
      in then_do (split n_folds X y) (\<lambda>folds.
           cv_loop sk ops X y binary kw metrics folds pipeline df results))"

section \<open>An instance of the library\<close>

text \<open>
  The theorems below hold for every instance of the library records. To evaluate the
  model at concrete inputs the following instance is used. Its curve functions follow
  the documented output of \<open>sklearn.metrics\<close>: the curves have one point per distinct
  score; \<open>roc_curve\<close> puts one extra threshold in front, so its three arrays have
  equal length (intermediate points are all kept); \<open>precision_recall_curve\<close> ends
  with the point (precision 1, recall 0), which has no threshold, so its thresholds
  array is one shorter than the other two. Scores containing \<open>nan\<close>, empty input and
  vectors of different lengths raise \<open>ValueError\<close>.
\<close>

definition score_value :: "pyfloat \<Rightarrow> real" where
  "score_value x = (case x of NaN \<Rightarrow> 0 | Fin r \<Rightarrow> r)"

definition ratio :: "nat \<Rightarrow> nat \<Rightarrow> pyfloat" where
  "ratio a b = (if b = 0 then NaN else Fin (real a / real b))"

definition tps :: "int list \<Rightarrow> real list \<Rightarrow> int \<Rightarrow> real \<Rightarrow> nat" where
  "tps y s pos t = length (filter (\<lambda>(l, x). t \<le> x \<and> l = pos) (zip y s))"

definition fps :: "int list \<Rightarrow> real list \<Rightarrow> int \<Rightarrow> real \<Rightarrow> nat" where
  "fps y s pos t = length (filter (\<lambda>(l, x). t \<le> x \<and> l \<noteq> pos) (zip y s))"

definition curve_input_ok :: "int list \<Rightarrow> pyfloat list \<Rightarrow> bool" where
  "curve_input_ok y s = (y \<noteq> [] \<and> length y = length s \<and> \<not> list_ex is_nan s)"

definition sk_roc_curve ::
  "int list \<Rightarrow> pyfloat list \<Rightarrow> int \<Rightarrow> error + (pyfloat list \<times> pyfloat list \<times> pyfloat list)" where
  "sk_roc_curve y scores pos =
     (if \<not> curve_input_ok y scores then Inl ValueError
      else let s = map score_value scores;
               ds = rev (sort (remdups s));
               ths = (hd ds + 1) # ds;
               p = length (filter (\<lambda>l. l = pos) y);
               n = length (filter (\<lambda>l. l \<noteq> pos) y)
           in Inr (map (\<lambda>t. ratio (fps y s pos t) n) ths,
                   map (\<lambda>t. ratio (tps y s pos t) p) ths,
                   map Fin ths))"

definition sk_precision_recall_curve ::
  "int list \<Rightarrow> pyfloat list \<Rightarrow> int \<Rightarrow> error + (pyfloat list \<times> pyfloat list \<times> pyfloat list)" where
  "sk_precision_recall_curve y scores pos =
     (if \<not> curve_input_ok y scores then Inl ValueError
      else let s = map score_value scores;
               ths = sort (remdups s);
               p = length (filter (\<lambda>l. l = pos) y)
           in Inr (map (\<lambda>t. ratio (tps y s pos t) (tps y s pos t + fps y s pos t)) ths @ [Fin 1],
                   map (\<lambda>t. ratio (tps y s pos t) p) ths @ [Fin 0],
                   map Fin ths))"

definition sk_accuracy_score :: "int list \<Rightarrow> int list \<Rightarrow> error + pyfloat" where
  "sk_accuracy_score y_true y_pred =
     (if length y_true \<noteq> length y_pred \<or> y_true = [] then Inl ValueError
      else Inr (ratio (length (filter (\<lambda>(a, b). a = b) (zip y_true y_pred))) (length y_true)))"

text \<open>
  The remaining scores of the instance are fixed numbers: the theorems never look
  inside them.
\<close>

definition sk_instance :: sklearn where
  "sk_instance =
     \<lparr>roc_curve = sk_roc_curve,
      precision_recall_curve = sk_precision_recall_curve,
      accuracy_score = sk_accuracy_score,
      cohen_kappa_score = (\<lambda>y_true y_pred. Inr (Fin (1 / 4))),
      f1_score = (\<lambda>y_true y_pred average. Inr (Fin (2 / 3))),
      matthews_corrcoef = (\<lambda>y_true y_pred. Inr (Fin (1 / 3))),
      roc_auc_score = (\<lambda>y_true_bin probs average. Inr (Fin (3 / 4))),
      average_precision_score = (\<lambda>y_true_bin probs. Inr (Fin (1 / 2)))\<rparr>"

text \<open>
  A pipeline, a fold splitter and constants to run \<open>cross_validate_pipeline\<close> on: the
  pipeline predicts the first training label for every sample, the splitter cuts four
  samples into two halves, and the metric lists are short ones that include a key
  (\<open>ROC_CURVE\<close>) which a fold's result does not hold.
\<close>

definition first_label_ops :: "(int, nat) pipeline_ops" where
  "first_label_ops =
     \<lparr>fit = (\<lambda>p X y. if y = [] then Inl ValueError else Inr (hd y)),
      predict = (\<lambda>p X. Inr (replicate (length X) p)),
      predict_proba = (\<lambda>p X. Inr \<lparr>ncols = 2, mrows = replicate (length X)
                          (if p = 0 then [Fin 1, Fin 0] else [Fin 0, Fin 1])\<rparr>),
      decision_function_binary = (\<lambda>p X. Inr (replicate (length X) (Fin (if p = 0 then - 1 else 1)))),
      decision_function_multi = (\<lambda>p X. Inr \<lparr>ncols = 2, mrows = replicate (length X)
                          (if p = 0 then [Fin 1, Fin (- 1)] else [Fin (- 1), Fin 1])\<rparr>),
      last_step_name = (\<lambda>p. ''dt'')\<rparr>"

definition halves :: "nat splitter" where
  "halves n X y =
     (if n = 2 \<and> length X = 4
      then Inr [([2, 3], [0, 1]), ([0, 1], [2, 3])] else Inl ValueError)"

definition example_constants :: constants where
  "example_constants =
     \<lparr>METRICS_BINARY = [ACCURACY, F1, ROC_CURVE],
      METRICS_MULTICLASS = [ACCURACY, RANK_ACCURACY],
      N_FOLDS_DEFAULT = 2\<rparr>"

definition fold_result :: results where
  "fold_result = [(ACCURACY, Scalar (Fin (1 / 2))), (COHEN_KAPPA, Scalar (Fin (1 / 4))),
                  (F1, Scalar (Fin (2 / 3))), (MCC, Scalar (Fin (1 / 3))),
                  (ROC_AUC, Scalar (Fin (3 / 4))), (AP, Scalar (Fin (1 / 2)))]"

section \<open>Properties\<close>

lemma np_unique_set: "set (np_unique y) = set y"
  by (simp add: np_unique_def)

subsection \<open>The indicator matrix in closed form\<close>

lemma set_column_rows:
  "length (mrows m) = length v \<Longrightarrow>
   length (mrows (set_column m i v)) = length v \<and>
   (\<forall>r<length v. mrows (set_column m i v) ! r = (mrows m ! r)[i := v ! r])"
  by (simp add: set_column_def)

lemma fold_cols:
  "length (mrows m) = length y \<Longrightarrow> \<forall>r<length y. length (mrows m ! r) = n \<Longrightarrow> k + length cs \<le> n \<Longrightarrow>
   ncols (fold (\<lambda>(i, cls) y_bin. set_column y_bin i (eq_mask y cls)) (enumerate k cs) m) = ncols m \<and>
   length (mrows (fold (\<lambda>(i, cls) y_bin. set_column y_bin i (eq_mask y cls)) (enumerate k cs) m)) = length y \<and>
   (\<forall>r<length y. mrows (fold (\<lambda>(i, cls) y_bin. set_column y_bin i (eq_mask y cls)) (enumerate k cs) m) ! r
     = take k (mrows m ! r) @ map (\<lambda>c. if y ! r = c then 1 else 0) cs @ drop (k + length cs) (mrows m ! r))"
proof (induction cs arbitrary: k m)
  case Nil
  then show ?case by simp
next
  case (Cons c cs)
  let ?m' = "set_column m k (eq_mask y c)"
  have len: "length (mrows m) = length (eq_mask y c)" using Cons.prems by (simp add: eq_mask_def)
  have a: "length (mrows ?m') = length y" using set_column_rows[OF len] by (simp add: eq_mask_def)
  have rows: "\<forall>r<length y. mrows ?m' ! r = (mrows m ! r)[k := (if y ! r = c then 1 else 0)]"
    using set_column_rows[OF len, of k] by (simp add: eq_mask_def)
  have b: "\<forall>r<length y. length (mrows ?m' ! r) = n" using rows Cons.prems by simp
  have c: "Suc k + length cs \<le> n" using Cons.prems by simp
  have nc: "ncols ?m' = ncols m" by (simp add: set_column_def)
  note ih = Cons.IH[OF a b c]
  have "\<forall>r<length y. take (Suc k) (mrows ?m' ! r) = take k (mrows m ! r) @ [if y ! r = c then 1 else 0]"
    using rows Cons.prems by (simp add: take_Suc_conv_app_nth)
  moreover have "\<forall>r<length y. drop (Suc k + length cs) (mrows ?m' ! r) = drop (k + length (c # cs)) (mrows m ! r)"
    using rows by simp
  ultimately show ?case using ih nc by simp
qed

lemma get_per_class_matrix_rows:
  "mrows (get_per_class_matrix y classes) =
     map (\<lambda>l. map (\<lambda>c. if l = c then 1 else 0) (class_set y classes)) y"
proof -
  let ?cs = "class_set y classes"
  let ?z = "zeros (length y) (length ?cs)"
  have 1: "length (mrows ?z) = length y" by (simp add: zeros_def)
  have 2: "\<forall>r<length y. length (mrows ?z ! r) = length ?cs" by (simp add: zeros_def)
  have 3: "0 + length ?cs \<le> length ?cs" by simp
  note f = fold_cols[OF 1 2 3]
  show ?thesis
    by (rule nth_equalityI) (use f 2 in \<open>simp_all add: get_per_class_matrix_def Let_def\<close>)
qed

lemma get_per_class_matrix_ncols:
  "ncols (get_per_class_matrix y classes) = length (class_set y classes)"
proof -
  let ?cs = "class_set y classes"
  let ?z = "zeros (length y) (length ?cs)"
  have 1: "length (mrows ?z) = length y" by (simp add: zeros_def)
  have 2: "\<forall>r<length y. length (mrows ?z ! r) = length ?cs" by (simp add: zeros_def)
  have 3: "0 + length ?cs \<le> length ?cs" by simp
  from fold_cols[OF 1 2 3] show ?thesis
    by (simp add: get_per_class_matrix_def Let_def zeros_def)
qed

lemma col_get_per_class_matrix:
  "j < length (class_set y classes) \<Longrightarrow>
   col (get_per_class_matrix y classes) j = eq_mask y (class_set y classes ! j)"
  by (simp add: col_def get_per_class_matrix_rows eq_mask_def)

lemma np_unique_sorted: "sorted_wrt (<) (np_unique y)"
  by (simp add: np_unique_def strict_sorted_iff)

lemma eq_mask_present: "c \<in> set y \<Longrightarrow> 1 \<in> set (eq_mask y c)"
  by (auto simp: eq_mask_def image_iff)

lemma eq_mask_absent: "c \<notin> set y \<Longrightarrow> eq_mask y c = replicate (length y) 0"
  by (induction y) (auto simp: eq_mask_def)

lemma eq_mask_sum_nonneg: "0 \<le> sum_list (eq_mask y c)"
  by (induction y) (auto simp: eq_mask_def)

lemma eq_mask_sum_pos: "c \<in> set y \<Longrightarrow> 0 < sum_list (eq_mask y c)"
proof (induction y)
  case Nil then show ?case by simp
next
  case (Cons a y)
  have "0 \<le> sum_list (eq_mask y c)" by (rule eq_mask_sum_nonneg)
  with Cons show ?case by (auto simp: eq_mask_def)
qed

lemma indicator_row_sum:
  "distinct cs \<Longrightarrow> sum_list (map (\<lambda>c. if l = c then (1::int) else 0) cs) = (if l \<in> set cs then 1 else 0)"
  by (induction cs) auto

lemma class_set_inferred: "classes = None \<or> classes = Some [] \<Longrightarrow> class_set y classes = np_unique y"
  by (auto simp: class_set_def)

lemma class_set_explicit: "cs \<noteq> [] \<Longrightarrow> class_set y (Some cs) = cs"
  by (simp add: class_set_def)

text \<open>
  Claim C6. With the class set omitted, the matrix has one column per sorted distinct
  observed label (column \<open>j\<close> is the indicator of the \<open>j\<close>-th such label) and
  every column contains a 1. With an explicit non-empty class list \<open>cs\<close>, the matrix
  has one column per listed class in the listed order, and the column of a class that
  does not occur in the labels is all zero.
\<close>

theorem get_per_class_matrix_columns:
  "(ncols (get_per_class_matrix y None) = length (np_unique y)
    \<and> sorted_wrt (<) (np_unique y) \<and> set (np_unique y) = set y
    \<and> (\<forall>j<length (np_unique y).
          col (get_per_class_matrix y None) j = eq_mask y (np_unique y ! j)
        \<and> 1 \<in> set (col (get_per_class_matrix y None) j)))
   \<and> (cs \<noteq> [] \<longrightarrow>
        ncols (get_per_class_matrix y (Some cs)) = length cs
      \<and> (\<forall>j<length cs.
            col (get_per_class_matrix y (Some cs)) j = eq_mask y (cs ! j)
          \<and> (cs ! j \<notin> set y \<longrightarrow>
                col (get_per_class_matrix y (Some cs)) j = replicate (length y) 0)))"
proof (intro conjI impI allI)
  show "ncols (get_per_class_matrix y None) = length (np_unique y)"
    by (simp add: get_per_class_matrix_ncols class_set_inferred)
  show "sorted_wrt (<) (np_unique y)" by (rule np_unique_sorted)
  show "set (np_unique y) = set y" by (rule np_unique_set)
next
  fix j assume j: "j < length (np_unique y)"
  then show c: "col (get_per_class_matrix y None) j = eq_mask y (np_unique y ! j)"
    using col_get_per_class_matrix[of j y None] by (simp add: class_set_inferred)
  have "np_unique y ! j \<in> set y" using j np_unique_set nth_mem by blast
  then show "1 \<in> set (col (get_per_class_matrix y None) j)"
    by (simp add: c eq_mask_present)
next
  assume "cs \<noteq> []"
  then show "ncols (get_per_class_matrix y (Some cs)) = length cs"
    by (simp add: get_per_class_matrix_ncols class_set_explicit)
next
  fix j assume cs: "cs \<noteq> []" and j: "j < length cs"
  then show c: "col (get_per_class_matrix y (Some cs)) j = eq_mask y (cs ! j)"
    using col_get_per_class_matrix[of j y "Some cs"] by (simp add: class_set_explicit)
  assume "cs ! j \<notin> set y"
  then show "col (get_per_class_matrix y (Some cs)) j = replicate (length y) 0"
    by (simp add: c eq_mask_absent)
qed

theorem get_per_class_matrix_columns_witness:
  "ncols (get_per_class_matrix [2, 0, 2, 5] None) = 3
   \<and> col (get_per_class_matrix [2, 0, 2, 5] None) 1 = [1, 0, 1, 0]
   \<and> ncols (get_per_class_matrix [2, 0, 2, 5] (Some [0, 1, 2])) = 3
   \<and> col (get_per_class_matrix [2, 0, 2, 5] (Some [0, 1, 2])) 1 = [0, 0, 0, 0]"
proof -
  note t = get_per_class_matrix_columns[of "[2, 0, 2, 5]" "[0, 1, 2]"]
  have u: "np_unique [2, 0, 2, 5] = [0, 2, 5]" by (simp add: np_unique_def)
  have a: "ncols (get_per_class_matrix [2, 0, 2, 5] None) = 3" using t u by simp
  have "(1::nat) < length (np_unique [2, 0, 2, 5])" using u by simp
  with t have "col (get_per_class_matrix [2, 0, 2, 5] None) 1 = eq_mask [2, 0, 2, 5] (np_unique [2, 0, 2, 5] ! 1)"
    by blast
  then have b: "col (get_per_class_matrix [2, 0, 2, 5] None) 1 = [1, 0, 1, 0]"
    using u by (simp add: eq_mask_def)
  have c: "ncols (get_per_class_matrix [2, 0, 2, 5] (Some [0, 1, 2])) = 3" using t by simp
  have "[0, 1, 2::int] \<noteq> []" "(1::nat) < length [0, 1, 2::int]" "[0, 1, 2::int] ! 1 \<notin> set [2, 0, 2, 5]"
    by simp_all
  with t have "col (get_per_class_matrix [2, 0, 2, 5] (Some [0, 1, 2])) 1 = replicate (length [2, 0, 2, 5::int]) 0"
    by blast
  then have d: "col (get_per_class_matrix [2, 0, 2, 5] (Some [0, 1, 2])) 1 = [0, 0, 0, 0]"
    by (simp add: numeral_eq_Suc)
  show ?thesis using a b c d by simp
qed

text \<open>
  Claim C9. Every entry of the returned matrix is 0 or 1, the matrix has one row per
  sample, and when the class set is inferred (omitted or empty) every row sums to 1:
  row \<open>i\<close> is the indicator of label \<open>y ! i\<close> among the sorted distinct labels.
\<close>

theorem get_per_class_matrix_entries:
  "(\<forall>r\<in>set (mrows (get_per_class_matrix y classes)). set r \<subseteq> {0, 1})
   \<and> length (mrows (get_per_class_matrix y classes)) = length y
   \<and> (classes = None \<or> classes = Some [] \<longrightarrow>
        (\<forall>i<length y. sum_list (mrows (get_per_class_matrix y classes) ! i) = 1
           \<and> mrows (get_per_class_matrix y classes) ! i = eq_mask (np_unique y) (y ! i)))"
proof (intro conjI impI allI)
  show "\<forall>r\<in>set (mrows (get_per_class_matrix y classes)). set r \<subseteq> {0, 1}"
    by (auto simp: get_per_class_matrix_rows)
  show "length (mrows (get_per_class_matrix y classes)) = length y"
    by (simp add: get_per_class_matrix_rows)
next
  fix i assume inf: "classes = None \<or> classes = Some []" and i: "i < length y"
  have dist: "distinct (np_unique y)" by (simp add: np_unique_def)
  have row: "mrows (get_per_class_matrix y classes) ! i
             = map (\<lambda>c. if y ! i = c then 1 else 0) (np_unique y)"
    using i by (simp add: get_per_class_matrix_rows class_set_inferred[OF inf])
  have "y ! i \<in> set (np_unique y)" using i by (simp add: np_unique_set)
  then show "sum_list (mrows (get_per_class_matrix y classes) ! i) = 1"
    using indicator_row_sum[OF dist, of "y ! i"] by (simp add: row)
  show "mrows (get_per_class_matrix y classes) ! i = eq_mask (np_unique y) (y ! i)"
    by (auto simp: row eq_mask_def)
qed

theorem get_per_class_matrix_entries_witness:
  "set (mrows (get_per_class_matrix [2, 0, 2, 5] None) ! 3) \<subseteq> {0, 1}
   \<and> sum_list (mrows (get_per_class_matrix [2, 0, 2, 5] None) ! 3) = 1
   \<and> mrows (get_per_class_matrix [2, 0, 2, 5] None) ! 3 = [0, 0, 1]"
proof -
  note t = get_per_class_matrix_entries[of "[2, 0, 2, 5]" None]
  have u: "np_unique [2, 0, 2, 5] = [0, 2, 5]" by (simp add: np_unique_def)
  have i: "(3::nat) < length [2, 0, 2, 5::int]" by simp
  from t i have s: "sum_list (mrows (get_per_class_matrix [2, 0, 2, 5] None) ! 3) = 1"
    and r: "mrows (get_per_class_matrix [2, 0, 2, 5] None) ! 3 = eq_mask (np_unique [2, 0, 2, 5]) ([2, 0, 2, 5] ! 3)"
    by blast+
  from r u have r': "mrows (get_per_class_matrix [2, 0, 2, 5] None) ! 3 = [0, 0, 1]"
    by (simp add: eq_mask_def)
  show ?thesis using s r' by simp
qed

text \<open>
  Claim C10. An explicitly supplied empty class sequence gives the same matrix as an
  omitted one: the class set falls back to the sorted distinct observed labels, so
  the matrix has one column per distinct label rather than none.
\<close>

theorem get_per_class_matrix_empty_classes:
  "get_per_class_matrix y (Some []) = get_per_class_matrix y None
   \<and> ncols (get_per_class_matrix y (Some [])) = card (set y)
   \<and> class_set y (Some []) = np_unique y"
proof (intro conjI)
  show "get_per_class_matrix y (Some []) = get_per_class_matrix y None"
    by (simp add: get_per_class_matrix_def class_set_def)
  have "length (np_unique y) = card (set y)"
    by (simp add: np_unique_def length_remdups_card_conv)
  then show "ncols (get_per_class_matrix y (Some [])) = card (set y)"
    by (simp add: get_per_class_matrix_ncols class_set_inferred)
  show "class_set y (Some []) = np_unique y" by (simp add: class_set_def)
qed

subsection \<open>rank_n_accuracy\<close>

lemma length_argsort_desc: "length (argsort_desc c row) = c"
  using sum_length_filter_compl[of "\<lambda>j. \<not> is_nan (row ! j)" "[0..<c]"]
  by (simp add: argsort_desc_def)

lemma set_argsort_desc: "set (argsort_desc c row) = {0..<c}"
  by (auto simp: argsort_desc_def)

lemma rank_loop_count:
  "\<forall>i\<in>set idx. i < length rankings \<Longrightarrow>
   rank_loop y_true rankings idx c =
     Inr (c + real (length (filter (\<lambda>i. y_true ! i \<in> set (map int (rankings ! i))) idx)))"
  by (induction idx arbitrary: c) auto

lemma slice_to_all: "int (length xs) \<le> k \<Longrightarrow> slice_to k xs = xs"
  by (simp add: slice_to_def)


lemma rank_n_accuracy_value:
  assumes "y_true \<noteq> []" and "length (mrows y_prob_mat) = length y_true"
    and "top_k (ncols y_prob_mat) n = Inr k"
  shows "rank_n_accuracy y_true y_prob_mat n =
     Inr (Fin (real (length (filter
        (\<lambda>i. y_true ! i \<in> set (map int (slice_to k (argsort_desc (ncols y_prob_mat) (mrows y_prob_mat ! i)))))
        [0..<length y_true])) / real (length y_true)))"
proof -
  let ?rk = "map (\<lambda>row. slice_to k (argsort_desc (ncols y_prob_mat) row)) (mrows y_prob_mat)"
  have "\<forall>i\<in>set [0..<length y_true]. i < length ?rk" using assms(2) by simp
  from rank_loop_count[OF this, of y_true 0]
  have "rank_loop y_true ?rk [0..<length y_true] 0 =
     Inr (real (length (filter (\<lambda>i. y_true ! i \<in> set (map int (?rk ! i))) [0..<length y_true])))"
    by simp
  moreover have "filter (\<lambda>i. y_true ! i \<in> set (map int (?rk ! i))) [0..<length y_true]
     = filter (\<lambda>i. y_true ! i \<in> set (map int (slice_to k (argsort_desc (ncols y_prob_mat) (mrows y_prob_mat ! i))))) [0..<length y_true]"
    using assms(2) by (intro filter_cong) auto
  ultimately show ?thesis using assms(1,3)
    by (simp add: rank_n_accuracy_def then_do_def Let_def)
qed




text \<open>
  Claim C8, as amended. For a non-empty label vector whose labels are all column
  indices in \<open>0..C-1\<close> and an S by C matrix with C > 1, \<open>rank_n_accuracy\<close> with
  \<open>n = C\<close> returns exactly 1.0.
\<close>

theorem rank_n_accuracy_top_all:
  assumes "y_true \<noteq> []" and "length (mrows y_prob_mat) = length y_true"
    and "1 < ncols y_prob_mat"
    and "\<forall>l\<in>set y_true. 0 \<le> l \<and> l < int (ncols y_prob_mat)"
  shows "rank_n_accuracy y_true y_prob_mat (PyInt (int (ncols y_prob_mat))) = Inr (Fin 1)"
proof -
  let ?C = "ncols y_prob_mat"
  have k: "top_k ?C (PyInt (int ?C)) = Inr (int ?C)" using assms(3) by (simp add: top_k_def)
  have "filter (\<lambda>i. y_true ! i \<in> set (map int (slice_to (int ?C) (argsort_desc ?C (mrows y_prob_mat ! i))))) [0..<length y_true]
        = [0..<length y_true]"
  proof (rule filter_True, intro ballI)
    fix i assume "i \<in> set [0..<length y_true]"
    then have "y_true ! i \<in> set y_true" by simp
    with assms(4) have "0 \<le> y_true ! i" "y_true ! i < int ?C" by auto
    then have "y_true ! i \<in> int ` {0..<?C}"
      by (intro image_eqI[where x = "nat (y_true ! i)"]) auto
    then show "y_true ! i \<in> set (map int (slice_to (int ?C) (argsort_desc ?C (mrows y_prob_mat ! i))))"
      by (simp add: slice_to_all length_argsort_desc set_argsort_desc)
  qed
  with rank_n_accuracy_value[OF assms(1,2) k] assms(1) show ?thesis by simp
qed

theorem rank_n_accuracy_top_all_witness:
  "rank_n_accuracy [1, 0, 1]
     \<lparr>ncols = 2, mrows = [[Fin (9 / 10), Fin (1 / 10)], [Fin (1 / 2), Fin (1 / 2)], [NaN, Fin 0]]\<rparr>
     (PyInt 2) = Inr (Fin 1)"
  using rank_n_accuracy_top_all[of "[1, 0, 1]"
     "\<lparr>ncols = 2, mrows = [[Fin (9 / 10), Fin (1 / 10)], [Fin (1 / 2), Fin (1 / 2)], [NaN, Fin 0]]\<rparr>"]
  by simp

text \<open>
  The claim as stated fails for a label that is no column index: label 2 with C = 2
  is not among the ranked columns 0 and 1, and the function returns 0.0.
\<close>

theorem rank_n_accuracy_counterexample_label:
  "rank_n_accuracy [2] \<lparr>ncols = 2, mrows = [[Fin (9 / 10), Fin (1 / 10)]]\<rparr> (PyInt 2) = Inr (Fin 0)"
  by (simp add: rank_n_accuracy_def top_k_def then_do_def argsort_desc_def slice_to_def
      is_nan_def neg_key_def Let_def upt_conv_Cons)

subsection \<open>Sequencing of fallible steps\<close>

lemma then_do_Inr_iff: "then_do m f = Inr r \<longleftrightarrow> (\<exists>x. m = Inr x \<and> f x = Inr r)"
  by (cases m) (simp_all add: then_do_def)

lemma then_do_Inr [simp]: "then_do (Inr x) f = f x"
  by (simp add: then_do_def)

lemma then_do_Inl [simp]: "then_do (Inl e) f = Inl e"
  by (simp add: then_do_def)

subsection \<open>get_metrics_binary\<close>

text \<open>
  Claim C1. When at least one entry of the probability matrix is \<open>nan\<close>,
  \<open>get_metrics_binary\<close> returns exactly when the four label scores are computed, and
  the returned mapping then holds six entries: accuracy, Cohen's kappa, F1 and
  Matthews correlation as the library computes them from the true and predicted
  labels alone, and ROC-AUC and average precision both \<open>nan\<close>. It holds no curve key,
  whatever \<open>include_curves\<close> is.
\<close>

theorem get_metrics_binary_nan_probs:
  assumes "any_isnan y_pred_probs"
  shows "get_metrics_binary sk y_true y_pred y_pred_probs include_curves = Inr res \<longleftrightarrow>
     (\<exists>acc kappa f1 mcc.
        accuracy_score sk y_true y_pred = Inr acc
      \<and> cohen_kappa_score sk y_true y_pred = Inr kappa
      \<and> f1_score sk y_true y_pred Binary = Inr f1
      \<and> matthews_corrcoef sk y_true y_pred = Inr mcc
      \<and> res = [(ACCURACY, Scalar acc), (COHEN_KAPPA, Scalar kappa), (F1, Scalar f1),
               (MCC, Scalar mcc), (ROC_AUC, Scalar NaN), (AP, Scalar NaN)])"
  using assms by (auto simp: get_metrics_binary_def then_do_Inr_iff Let_def)

theorem get_metrics_binary_nan_probs_witness:
  "any_isnan \<lparr>ncols = 2, mrows = [[Fin (9 / 10), Fin (1 / 10)], [NaN, Fin (4 / 5)]]\<rparr>
   \<and> get_metrics_binary sk_instance [0, 1] [0, 0]
        \<lparr>ncols = 2, mrows = [[Fin (9 / 10), Fin (1 / 10)], [NaN, Fin (4 / 5)]]\<rparr> True
      = Inr [(ACCURACY, Scalar (Fin (1 / 2))), (COHEN_KAPPA, Scalar (Fin (1 / 4))),
             (F1, Scalar (Fin (2 / 3))), (MCC, Scalar (Fin (1 / 3))),
             (ROC_AUC, Scalar NaN), (AP, Scalar NaN)]"
proof -
  let ?P = "\<lparr>ncols = 2, mrows = [[Fin (9 / 10), Fin (1 / 10)], [NaN, Fin (4 / 5)]]\<rparr>"
  have n: "any_isnan ?P" by (simp add: any_isnan_def is_nan_def)
  have acc: "accuracy_score sk_instance [0, 1] [0, 0] = Inr (Fin (1 / 2))"
    by (simp add: sk_instance_def sk_accuracy_score_def ratio_def)
  have rest: "cohen_kappa_score sk_instance [0, 1] [0, 0] = Inr (Fin (1 / 4))"
    "f1_score sk_instance [0, 1] [0, 0] Binary = Inr (Fin (2 / 3))"
    "matthews_corrcoef sk_instance [0, 1] [0, 0] = Inr (Fin (1 / 3))"
    by (simp_all add: sk_instance_def)
  show ?thesis
    using get_metrics_binary_nan_probs[OF n, of sk_instance "[0, 1]" "[0, 0]" True] n acc rest
    by simp
qed






subsection \<open>get_pr_roc_curves\<close>

text \<open>
  Claim C4, as amended. \<open>get_pr_roc_curves\<close> stores the three arrays of each library
  call unchanged. Under the library's output shapes (\<open>roc_curve\<close>: three arrays of
  equal length; \<open>precision_recall_curve\<close>: precision and recall one longer than
  the thresholds) the ROC curve is three sequences of equal length, and the
  precision-recall curve has precisions and recalls of equal length and a
  thresholds sequence exactly one shorter.
\<close>

theorem get_pr_roc_curves_lengths:
  assumes "roc_curve sk y_true scores 1 = Inr (fprs, tprs, roc_thresholds)"
    and "length fprs = length roc_thresholds" and "length tprs = length roc_thresholds"
    and "precision_recall_curve sk y_true scores 1 = Inr (precisions, recalls, pr_thresholds)"
    and "length precisions = Suc (length pr_thresholds)"
    and "length recalls = Suc (length pr_thresholds)"
  shows "\<exists>res. get_pr_roc_curves sk y_true scores = Inr res
       \<and> map_of res ROC_CURVE = Some (Curve [(''fprs'', fprs), (''tprs'', tprs),
                                              (''thresholds'', roc_thresholds)])
       \<and> map_of res PR_CURVE = Some (Curve [(''precisions'', precisions), (''recalls'', recalls),
                                             (''thresholds'', pr_thresholds)])
       \<and> curve_lengths res ROC_CURVE
           = Some [length roc_thresholds, length roc_thresholds, length roc_thresholds]
       \<and> curve_lengths res PR_CURVE
           = Some [Suc (length pr_thresholds), Suc (length pr_thresholds), length pr_thresholds]"
  using assms by (simp add: get_pr_roc_curves_def curve_lengths_def)

lemma sk_curves_example:
  "roc_curve sk_instance [0, 1] [Fin (1 / 5), Fin (4 / 5)] 1
     = Inr ([Fin 0, Fin 0, Fin 1], [Fin 0, Fin 1, Fin 1], [Fin (9 / 5), Fin (4 / 5), Fin (1 / 5)])"
  "precision_recall_curve sk_instance [0, 1] [Fin (1 / 5), Fin (4 / 5)] 1
     = Inr ([Fin (1 / 2), Fin 1, Fin 1], [Fin 1, Fin 1, Fin 0], [Fin (1 / 5), Fin (4 / 5)])"
  by (simp_all add: sk_instance_def sk_roc_curve_def sk_precision_recall_curve_def
      curve_input_ok_def is_nan_def score_value_def tps_def fps_def ratio_def Let_def)

theorem get_pr_roc_curves_lengths_witness:
  "\<exists>res. get_pr_roc_curves sk_instance [0, 1] [Fin (1 / 5), Fin (4 / 5)] = Inr res
       \<and> curve_lengths res ROC_CURVE = Some [3, 3, 3]
       \<and> curve_lengths res PR_CURVE = Some [3, 3, 2]"
  using get_pr_roc_curves_lengths[OF sk_curves_example(1) _ _ sk_curves_example(2)]
  by (auto simp: eval_nat_numeral)

text \<open>
  The claim as stated fails for the precision-recall curve: on labels \<open>[0, 1]\<close> with
  scores \<open>[0.2, 0.8]\<close> the stored precisions and recalls have three items and the
  thresholds two.
\<close>

theorem get_pr_roc_curves_counterexample:
  "get_pr_roc_curves sk_instance [0, 1] [Fin (1 / 5), Fin (4 / 5)]
     = Inr [(ROC_CURVE, Curve [(''fprs'', [Fin 0, Fin 0, Fin 1]), (''tprs'', [Fin 0, Fin 1, Fin 1]),
                               (''thresholds'', [Fin (9 / 5), Fin (4 / 5), Fin (1 / 5)])]),
            (PR_CURVE, Curve [(''precisions'', [Fin (1 / 2), Fin 1, Fin 1]),
                              (''recalls'', [Fin 1, Fin 1, Fin 0]),
                              (''thresholds'', [Fin (1 / 5), Fin (4 / 5)])])]
   \<and> length [Fin (1 / 2), Fin 1, Fin 1] \<noteq> length [Fin (1 / 5), Fin (4 / 5)]"
  by (simp add: get_pr_roc_curves_def sk_curves_example)

subsection \<open>get_metrics_multiclass\<close>

lemma norm_indices_nonneg:
  "\<forall>j\<in>set js. 0 \<le> j \<Longrightarrow> norm_indices c js = Inr js' \<Longrightarrow>
   js' = map nat js \<and> (\<forall>j\<in>set js. j < int c)"
proof (induction js arbitrary: js')
  case Nil
  then show ?case by simp
next
  case (Cons j js)
  from Cons.prems(2) obtain j' rest where j': "norm_index c j = Inr j'"
    and rest: "norm_indices c js = Inr rest" and js': "js' = j' # rest"
    by (auto simp: then_do_Inr_iff)
  have "0 \<le> j" using Cons.prems(1) by simp
  with j' have "j' = nat j" "j < int c"
    by (auto simp: norm_index_def Let_def split: if_splits)
  moreover have "rest = map nat js \<and> (\<forall>j\<in>set js. j < int c)"
    using Cons.IH[OF _ rest] Cons.prems(1) by simp
  ultimately show ?case using js' by simp
qed

lemma auc_arguments_Inr:
  "auc_arguments y_true probs = Inr (A, B) \<Longrightarrow>
   A = get_per_class_matrix y_true None \<and>
   (\<exists>js. norm_indices (ncols probs) (np_unique y_true) = Inr js \<and>
         B = \<lparr>ncols = length js, mrows = map (\<lambda>r. map (\<lambda>j. r ! j) js) (mrows probs)\<rparr>)"
  by (auto simp: auc_arguments_def take_columns_def then_do_Inr_iff Let_def)

lemma col_sum_inferred:
  assumes "j < ncols (get_per_class_matrix y None)"
  shows "0 < col_sum (get_per_class_matrix y None) j"
proof -
  have j: "j < length (np_unique y)"
    using assms by (simp add: get_per_class_matrix_ncols class_set_inferred)
  then have "np_unique y ! j \<in> set y" using np_unique_set nth_mem by blast
  then have "0 < sum_list (eq_mask y (np_unique y ! j))" by (rule eq_mask_sum_pos)
  moreover have "col (get_per_class_matrix y None) j = eq_mask y (np_unique y ! j)"
    using col_get_per_class_matrix[of j y None] j by (simp add: class_set_inferred)
  ultimately show ?thesis by (simp add: col_sum_def)
qed

lemma get_metrics_multiclass_auc:
  assumes run: "get_metrics_multiclass sk y_true y_pred probs include_per_class include_curves = Inr res"
    and "length (np_unique y_true) \<noteq> 1" and "\<not> any_isnan probs"
  shows "\<exists>A B micro macro. auc_arguments y_true probs = Inr (A, B)
       \<and> roc_auc_score sk A B Micro = Inr micro \<and> roc_auc_score sk A B Macro = Inr macro
       \<and> map_of res ROC_AUC_MICRO = Some (Scalar micro)
       \<and> map_of res ROC_AUC_MACRO = Some (Scalar macro)"
proof -
  have "\<exists>A B micro macro acc kappa f1_micro f1_macro rank r0.
         auc_arguments y_true probs = Inr (A, B)
       \<and> roc_auc_score sk A B Micro = Inr micro \<and> roc_auc_score sk A B Macro = Inr macro
       \<and> r0 = [(ACCURACY, Scalar acc), (COHEN_KAPPA, Scalar kappa),
               (F1_MICRO, Scalar f1_micro), (F1_MACRO, Scalar f1_macro),
               (ROC_AUC_MICRO, Scalar micro), (ROC_AUC_MACRO, Scalar macro),
               (RANK_ACCURACY, Scalar rank)]
       \<and> (res = r0 \<or> (\<exists>cw. res = AList.update CLASS_WISE (ClassWise cw) r0))"
  proof (cases "include_per_class \<or> include_curves")
    case True
    with run assms(2,3) show ?thesis
      by (auto simp add: get_metrics_multiclass_def then_do_Inr_iff Let_def split_beta)
  next
    case False
    with run assms(2,3) show ?thesis
      by (auto simp add: get_metrics_multiclass_def then_do_Inr_iff Let_def split_beta)
  qed
  then obtain A B micro macro acc kappa f1_micro f1_macro rank r0 where
    args: "auc_arguments y_true probs = Inr (A, B)"
    and mi: "roc_auc_score sk A B Micro = Inr micro" and ma: "roc_auc_score sk A B Macro = Inr macro"
    and r0: "r0 = [(ACCURACY, Scalar acc), (COHEN_KAPPA, Scalar kappa),
               (F1_MICRO, Scalar f1_micro), (F1_MACRO, Scalar f1_macro),
               (ROC_AUC_MICRO, Scalar micro), (ROC_AUC_MACRO, Scalar macro),
               (RANK_ACCURACY, Scalar rank)]"
    and fin: "res = r0 \<or> (\<exists>cw. res = AList.update CLASS_WISE (ClassWise cw) r0)"
    by blast
  have "map_of res ROC_AUC_MICRO = Some (Scalar micro) \<and> map_of res ROC_AUC_MACRO = Some (Scalar macro)"
    using fin r0 by (auto simp: update_conv')
  with args mi ma show ?thesis by auto
qed

lemma norm_indices_length: "norm_indices c js = Inr js' \<Longrightarrow> length js' = length js"
  by (induction js arbitrary: js') (auto simp: then_do_Inr_iff)

text \<open>
  Claim C2, as amended. Whenever \<open>get_metrics_multiclass\<close> reaches the ROC-AUC calls,
  the arguments \<open>(A, B)\<close> it passes are those of \<open>auc_arguments\<close>: \<open>A\<close> is the
  indicator matrix over the classes present, and each of its columns has a sum
  greater than 0. When no true label is negative, every label is a column index and
  column \<open>j\<close> of \<open>B\<close> is the column of the \<open>j\<close>-th smallest present class, so \<open>B\<close>
  is the probability matrix restricted to the columns of the present classes in
  column order. On a run that returns, with two or more distinct true classes (or
  none) and no \<open>nan\<close>, the micro and macro entries are the library's scores on
  \<open>(A, B)\<close>.
\<close>

theorem multiclass_auc_arguments:
  assumes "auc_arguments y_true probs = Inr (A, B)"
  shows "A = get_per_class_matrix y_true None
       \<and> ncols A = length (np_unique y_true) \<and> ncols B = ncols A
       \<and> (\<forall>j<ncols A. 0 < col_sum A j)
       \<and> ((\<forall>l\<in>set y_true. 0 \<le> l) \<longrightarrow>
            sorted_wrt (<) (np_unique y_true) \<and> set (np_unique y_true) = set y_true
          \<and> (\<forall>c\<in>set y_true. c < int (ncols probs))
          \<and> (\<forall>j<ncols B. col B j = col probs (nat (np_unique y_true ! j))))
       \<and> (get_metrics_multiclass sk y_true y_pred probs include_per_class include_curves = Inr res
            \<and> length (np_unique y_true) \<noteq> 1 \<and> \<not> any_isnan probs \<longrightarrow>
            (\<exists>micro macro. roc_auc_score sk A B Micro = Inr micro
                \<and> roc_auc_score sk A B Macro = Inr macro
                \<and> map_of res ROC_AUC_MICRO = Some (Scalar micro)
                \<and> map_of res ROC_AUC_MACRO = Some (Scalar macro)))"
proof -
  from auc_arguments_Inr[OF assms] obtain js where
    A: "A = get_per_class_matrix y_true None"
    and js: "norm_indices (ncols probs) (np_unique y_true) = Inr js"
    and B: "B = \<lparr>ncols = length js, mrows = map (\<lambda>r. map (\<lambda>j. r ! j) js) (mrows probs)\<rparr>"
    by blast
  have len: "length js = length (np_unique y_true)"
    using js by (rule norm_indices_length)
  have ncA: "ncols A = length (np_unique y_true)"
    by (simp add: A get_per_class_matrix_ncols class_set_inferred)
  have ncB: "ncols B = ncols A" by (simp add: B len ncA)
  have sums: "\<forall>j<ncols A. 0 < col_sum A j"
    unfolding A by (simp add: col_sum_inferred)
  have cols: "sorted_wrt (<) (np_unique y_true) \<and> set (np_unique y_true) = set y_true
          \<and> (\<forall>c\<in>set y_true. c < int (ncols probs))
          \<and> (\<forall>j<ncols B. col B j = col probs (nat (np_unique y_true ! j)))"
    if nonneg: "\<forall>l\<in>set y_true. 0 \<le> l"
  proof -
    from nonneg have "\<forall>j\<in>set (np_unique y_true). 0 \<le> j" by (simp add: np_unique_set)
    from norm_indices_nonneg[OF this js]
    have jsmap: "js = map nat (np_unique y_true)"
      and bound: "\<forall>c\<in>set y_true. c < int (ncols probs)"
      by (simp_all add: np_unique_set)
    have "col B j = col probs (nat (np_unique y_true ! j))" if "j < ncols B" for j
      using that by (simp add: B col_def jsmap)
    with bound show ?thesis by (simp add: np_unique_sorted np_unique_set)
  qed
  have link: "\<exists>micro macro. roc_auc_score sk A B Micro = Inr micro
                \<and> roc_auc_score sk A B Macro = Inr macro
                \<and> map_of res ROC_AUC_MICRO = Some (Scalar micro)
                \<and> map_of res ROC_AUC_MACRO = Some (Scalar macro)"
    if "get_metrics_multiclass sk y_true y_pred probs include_per_class include_curves = Inr res"
      "length (np_unique y_true) \<noteq> 1" "\<not> any_isnan probs"
    using get_metrics_multiclass_auc[OF that] assms by auto
  show ?thesis using A ncA ncB sums cols link by blast
qed

lemma auc_arguments_example:
  "auc_arguments [0, 1] \<lparr>ncols = 2, mrows = [[Fin (3 / 10), Fin (7 / 10)], [Fin (3 / 5), Fin (2 / 5)]]\<rparr>
     = Inr (\<lparr>ncols = 2, mrows = [[1, 0], [0, 1]]\<rparr>,
            \<lparr>ncols = 2, mrows = [[Fin (3 / 10), Fin (7 / 10)], [Fin (3 / 5), Fin (2 / 5)]]\<rparr>)"
  by (simp add: auc_arguments_def take_columns_def norm_index_def np_unique_def
      get_per_class_matrix_def class_set_def zeros_def set_column_def eq_mask_def Let_def)

lemma multiclass_example:
  "get_metrics_multiclass sk_instance [0, 1] [0, 0]
        \<lparr>ncols = 2, mrows = [[Fin (3 / 10), Fin (7 / 10)], [Fin (3 / 5), Fin (2 / 5)]]\<rparr> False False
     = Inr [(ACCURACY, Scalar (Fin (1 / 2))), (COHEN_KAPPA, Scalar (Fin (1 / 4))),
            (F1_MICRO, Scalar (Fin (2 / 3))), (F1_MACRO, Scalar (Fin (2 / 3))),
            (ROC_AUC_MICRO, Scalar (Fin (3 / 4))), (ROC_AUC_MACRO, Scalar (Fin (3 / 4))),
            (RANK_ACCURACY, Scalar (Fin 0))]"
proof -
  have u: "length (np_unique [0, 1]) \<noteq> 1" by (simp add: np_unique_def)
  have n: "\<not> any_isnan \<lparr>ncols = 2, mrows = [[Fin (3 / 10), Fin (7 / 10)], [Fin (3 / 5), Fin (2 / 5)]]\<rparr>"
    by (simp add: any_isnan_def is_nan_def)
  have acc: "accuracy_score sk_instance [0, 1] [0, 0] = Inr (Fin (1 / 2))"
    by (simp add: sk_instance_def sk_accuracy_score_def ratio_def)
  have rank: "rank_n_accuracy [0, 1] \<lparr>ncols = 2, mrows = [[Fin (3 / 10), Fin (7 / 10)], [Fin (3 / 5), Fin (2 / 5)]]\<rparr>
     (PyFloat (33 / 100)) = Inr (Fin 0)"
    by (simp add: rank_n_accuracy_def top_k_def then_do_def argsort_desc_def slice_to_def
      is_nan_def neg_key_def py_round_def Let_def upt_conv_Cons)
  show ?thesis
    using u n acc rank auc_arguments_example
    by (simp add: get_metrics_multiclass_def Let_def sk_instance_def)
qed

theorem multiclass_auc_arguments_witness:
  "0 < col_sum \<lparr>ncols = 2, mrows = [[1, 0], [0, 1]]\<rparr> 0
   \<and> 0 < col_sum \<lparr>ncols = 2, mrows = [[1, 0], [0, 1]]\<rparr> 1
   \<and> col \<lparr>ncols = 2, mrows = [[Fin (3 / 10), Fin (7 / 10)], [Fin (3 / 5), Fin (2 / 5)]]\<rparr> 1
       = [Fin (7 / 10), Fin (2 / 5)]
   \<and> (\<exists>micro macro.
        roc_auc_score sk_instance \<lparr>ncols = 2, mrows = [[1, 0], [0, 1]]\<rparr>
          \<lparr>ncols = 2, mrows = [[Fin (3 / 10), Fin (7 / 10)], [Fin (3 / 5), Fin (2 / 5)]]\<rparr> Micro = Inr micro
      \<and> roc_auc_score sk_instance \<lparr>ncols = 2, mrows = [[1, 0], [0, 1]]\<rparr>
          \<lparr>ncols = 2, mrows = [[Fin (3 / 10), Fin (7 / 10)], [Fin (3 / 5), Fin (2 / 5)]]\<rparr> Macro = Inr macro
      \<and> map_of [(ACCURACY, Scalar (Fin (1 / 2))), (COHEN_KAPPA, Scalar (Fin (1 / 4))),
            (F1_MICRO, Scalar (Fin (2 / 3))), (F1_MACRO, Scalar (Fin (2 / 3))),
            (ROC_AUC_MICRO, Scalar (Fin (3 / 4))), (ROC_AUC_MACRO, Scalar (Fin (3 / 4))),
            (RANK_ACCURACY, Scalar (Fin 0))] ROC_AUC_MICRO = Some (Scalar micro))"
proof -
  let ?A = "\<lparr>ncols = 2, mrows = [[1, 0], [0, 1]]\<rparr> :: int matrix"
  let ?P = "\<lparr>ncols = 2, mrows = [[Fin (3 / 10), Fin (7 / 10)], [Fin (3 / 5), Fin (2 / 5)]]\<rparr>"
  let ?res = "[(ACCURACY, Scalar (Fin (1 / 2))), (COHEN_KAPPA, Scalar (Fin (1 / 4))),
            (F1_MICRO, Scalar (Fin (2 / 3))), (F1_MACRO, Scalar (Fin (2 / 3))),
            (ROC_AUC_MICRO, Scalar (Fin (3 / 4))), (ROC_AUC_MACRO, Scalar (Fin (3 / 4))),
            (RANK_ACCURACY, Scalar (Fin 0))]"
  note t = multiclass_auc_arguments[OF auc_arguments_example, of sk_instance "[0, 0]" False False ?res]
  from t have "\<forall>j<ncols ?A. 0 < col_sum ?A j" by blast
  then have s: "0 < col_sum ?A 0" "0 < col_sum ?A 1" by simp_all
  have "\<forall>l\<in>set [0, 1::int]. 0 \<le> l" by simp
  with t have "\<forall>j<ncols ?P. col ?P j = col ?P (nat (np_unique [0, 1] ! j))" by blast
  then have "col ?P 1 = col ?P (nat (np_unique [0, 1] ! 1))" by simp
  then have c: "col ?P 1 = [Fin (7 / 10), Fin (2 / 5)]" by (simp add: np_unique_def col_def)
  have u: "length (np_unique [0, 1]) \<noteq> 1" by (simp add: np_unique_def)
  have n: "\<not> any_isnan ?P" by (simp add: any_isnan_def is_nan_def)
  from t multiclass_example u n
  have l: "\<exists>micro macro. roc_auc_score sk_instance ?A ?P Micro = Inr micro
      \<and> roc_auc_score sk_instance ?A ?P Macro = Inr macro
      \<and> map_of ?res ROC_AUC_MICRO = Some (Scalar micro)
      \<and> map_of ?res ROC_AUC_MACRO = Some (Scalar macro)" by blast
  show ?thesis using s c l by blast
qed

lemma rank_example:
  "rank_n_accuracy [-1, 0] \<lparr>ncols = 2, mrows = [[Fin (3 / 10), Fin (7 / 10)], [Fin (3 / 5), Fin (2 / 5)]]\<rparr>
     (PyFloat (33 / 100)) = Inr (Fin (1 / 2))"
  by (simp add: rank_n_accuracy_def top_k_def then_do_def argsort_desc_def slice_to_def
      is_nan_def neg_key_def py_round_def Let_def upt_conv_Cons)

lemma auc_arguments_negative:
  "auc_arguments [-1, 0] \<lparr>ncols = 2, mrows = [[Fin (3 / 10), Fin (7 / 10)], [Fin (3 / 5), Fin (2 / 5)]]\<rparr>
     = Inr (\<lparr>ncols = 2, mrows = [[1, 0], [0, 1]]\<rparr>,
            \<lparr>ncols = 2, mrows = [[Fin (7 / 10), Fin (3 / 10)], [Fin (2 / 5), Fin (3 / 5)]]\<rparr>)"
  by (simp add: auc_arguments_def take_columns_def norm_index_def np_unique_def
      get_per_class_matrix_def class_set_def zeros_def set_column_def eq_mask_def Let_def)

text \<open>
  The claim as stated fails for a negative label, which numpy reads as an index from
  the last column: with true labels \<open>[-1, 0]\<close> and two columns the ROC-AUC calls are
  reached and the matrix passed has the two columns swapped.
\<close>

theorem multiclass_auc_arguments_counterexample:
  "auc_arguments [-1, 0] \<lparr>ncols = 2, mrows = [[Fin (3 / 10), Fin (7 / 10)], [Fin (3 / 5), Fin (2 / 5)]]\<rparr>
     = Inr (\<lparr>ncols = 2, mrows = [[1, 0], [0, 1]]\<rparr>,
            \<lparr>ncols = 2, mrows = [[Fin (7 / 10), Fin (3 / 10)], [Fin (2 / 5), Fin (3 / 5)]]\<rparr>)
   \<and> get_metrics_multiclass sk_instance [-1, 0] [0, 0]
        \<lparr>ncols = 2, mrows = [[Fin (3 / 10), Fin (7 / 10)], [Fin (3 / 5), Fin (2 / 5)]]\<rparr> False False
     = Inr [(ACCURACY, Scalar (Fin (1 / 2))), (COHEN_KAPPA, Scalar (Fin (1 / 4))),
            (F1_MICRO, Scalar (Fin (2 / 3))), (F1_MACRO, Scalar (Fin (2 / 3))),
            (ROC_AUC_MICRO, Scalar (Fin (3 / 4))), (ROC_AUC_MACRO, Scalar (Fin (3 / 4))),
            (RANK_ACCURACY, Scalar (Fin (1 / 2)))]
   \<and> col \<lparr>ncols = 2, mrows = [[Fin (7 / 10), Fin (3 / 10)], [Fin (2 / 5), Fin (3 / 5)]]\<rparr> 0
       = col \<lparr>ncols = 2, mrows = [[Fin (3 / 10), Fin (7 / 10)], [Fin (3 / 5), Fin (2 / 5)]]\<rparr> 1
   \<and> col \<lparr>ncols = 2, mrows = [[Fin (7 / 10), Fin (3 / 10)], [Fin (2 / 5), Fin (3 / 5)]]\<rparr> 1
       = col \<lparr>ncols = 2, mrows = [[Fin (3 / 10), Fin (7 / 10)], [Fin (3 / 5), Fin (2 / 5)]]\<rparr> 0"
proof -
  have u: "length (np_unique [-1, 0]) \<noteq> 1" by (simp add: np_unique_def)
  have n: "\<not> any_isnan \<lparr>ncols = 2, mrows = [[Fin (3 / 10), Fin (7 / 10)], [Fin (3 / 5), Fin (2 / 5)]]\<rparr>"
    by (simp add: any_isnan_def is_nan_def)
  have acc: "accuracy_score sk_instance [-1, 0] [0, 0] = Inr (Fin (1 / 2))"
    by (simp add: sk_instance_def sk_accuracy_score_def ratio_def)
  show ?thesis
    using u n acc rank_example auc_arguments_negative
    by (simp add: get_metrics_multiclass_def Let_def sk_instance_def col_def)
qed

subsection \<open>cross_validate_pipeline\<close>

lemma summary_fold_map_of:
  "map_of (fold (\<lambda>m d. AList.update m (f m) d) ms d0) k
     = (if k \<in> set ms then Some (f k) else map_of d0 k)"
  by (induction ms arbitrary: d0) (auto simp: update_conv')

lemma summary_row_map_of:
  "map_of (summary_row metrics r) k = (if k \<in> set metrics then Some (map_of r k) else None)"
  by (simp add: summary_row_def summary_fold_map_of)

lemma summary_fold_keys:
  "fst ` set (fold (\<lambda>m d. AList.update m (f m) d) ms d0) = set ms \<union> fst ` set d0"
  by (induction ms arbitrary: d0) (auto simp: dom_update)

lemma summary_row_keys: "fst ` set (summary_row metrics r) = set metrics"
  by (simp add: summary_row_def summary_fold_keys)

lemma fold_new_columns:
  "set ks \<subseteq> set cs \<Longrightarrow> fold (\<lambda>k cs. if k \<in> set cs then cs else cs @ [k]) ks cs = cs"
  by (induction ks) auto

lemma df_append_row:
  "set metrics \<subseteq> set (columns df) \<Longrightarrow>
   columns (df_append df [summary_row metrics r]) = columns df \<and>
   rows (df_append df [summary_row metrics r]) = rows df @ [summary_row metrics r]"
proof -
  assume a: "set metrics \<subseteq> set (columns df)"
  have "set (map fst (summary_row metrics r)) = set metrics"
    using summary_row_keys[of metrics r] by simp
  with a show ?thesis by (simp add: df_append_def fold_new_columns)
qed

lemma cv_loop_result:
  "cv_loop sk ops X y binary kw metrics folds p df rs = Inr (df', rs', p') \<Longrightarrow>
   set metrics \<subseteq> set (columns df) \<Longrightarrow>
   columns df' = columns df
   \<and> length rs' = length rs + length folds
   \<and> take (length rs) rs' = rs
   \<and> rows df' = rows df @ map (summary_row metrics) (drop (length rs) rs')
   \<and> (\<forall>i<length folds. \<exists>q X_test y_test.
         take_rows X (snd (folds ! i)) = Inr X_test
       \<and> take_rows y (snd (folds ! i)) = Inr y_test
       \<and> test_pipeline sk ops q X_test y_test binary kw = Inr (rs' ! (length rs + i)))"
proof (induction folds arbitrary: p df rs)
  case Nil
  then show ?case by simp
next
  case (Cons fold folds)
  obtain train_index test_index where f: "fold = (train_index, test_index)" by (cases fold)
  from Cons.prems(1) obtain X_train y_train q X_test y_test split_results where
    xt: "take_rows X test_index = Inr X_test" and yt: "take_rows y test_index = Inr y_test"
    and tp: "test_pipeline sk ops q X_test y_test binary kw = Inr split_results"
    and rest: "cv_loop sk ops X y binary kw metrics folds q
                 (df_append df [summary_row metrics split_results]) (rs @ [split_results])
               = Inr (df', rs', p')"
    by (auto simp: f then_do_Inr_iff)
  let ?df1 = "df_append df [summary_row metrics split_results]"
  note ap = df_append_row[OF Cons.prems(2), of split_results]
  have sub: "set metrics \<subseteq> set (columns ?df1)" using ap Cons.prems(2) by simp
  note ih = Cons.IH[OF rest sub]
  from ih have len: "length rs' = Suc (length rs) + length folds" by simp
  from ih have tk: "take (Suc (length rs)) rs' = rs @ [split_results]" by simp
  have tk0: "take (length rs) rs' = rs"
  proof -
    have "take (length rs) rs' = take (length rs) (take (Suc (length rs)) rs')" by simp
    also have "\<dots> = rs" by (simp add: tk)
    finally show ?thesis .
  qed
  have nth0: "rs' ! length rs = split_results"
  proof -
    have "rs' ! length rs = take (Suc (length rs)) rs' ! length rs" by simp
    also have "\<dots> = split_results" by (simp add: tk)
    finally show ?thesis .
  qed
  have dr: "drop (length rs) rs' = split_results # drop (Suc (length rs)) rs'"
    using Cons_nth_drop_Suc[of "length rs" rs'] len nth0 by simp
  have rws: "rows df' = rows df @ map (summary_row metrics) (drop (length rs) rs')"
    using ih ap by (simp add: dr)
  have each: "\<exists>q X_test y_test.
         take_rows X (snd ((fold # folds) ! i)) = Inr X_test
       \<and> take_rows y (snd ((fold # folds) ! i)) = Inr y_test
       \<and> test_pipeline sk ops q X_test y_test binary kw = Inr (rs' ! (length rs + i))"
    if "i < length (fold # folds)" for i
  proof (cases i)
    case 0
    then show ?thesis using xt yt tp nth0 f by auto
  next
    case (Suc j)
    with that have "j < length folds" by simp
    with ih Suc show ?thesis by simp
  qed
  show ?case using ih ap len tk0 rws each by simp
qed

text \<open>
  Claim C7. On a run that completes, with a fold splitter that yields exactly \<open>N\<close>
  folds for fold count \<open>N\<close>, the summary table has exactly \<open>N\<close> rows and the raw
  result list has length \<open>N\<close>; the table's columns are the metric list of the mode;
  row \<open>i\<close> is built from result \<open>i\<close>, each cell holding the result's value for the
  metric, or \<open>None\<close> where the key is absent; and result \<open>i\<close> is the evaluation on
  the test partition of fold \<open>i\<close>.
\<close>

theorem cross_validate_pipeline_summary:
  assumes run: "cross_validate_pipeline sk consts split ops pipeline X y binary n_folds kw
                  = Inr (df, results, pipeline')"
    and N: "N = (case n_folds of None \<Rightarrow> N_FOLDS_DEFAULT consts | Some n \<Rightarrow> n)"
    and contract: "\<forall>folds. split N X y = Inr folds \<longrightarrow> int (length folds) = N"
    and metrics: "metrics = (if binary then METRICS_BINARY consts else METRICS_MULTICLASS consts)"
  shows "int (length (rows df)) = N \<and> int (length results) = N \<and> columns df = metrics
       \<and> (\<forall>i<length results.
            rows df ! i = summary_row metrics (results ! i)
          \<and> (\<forall>m\<in>set metrics. map_of (rows df ! i) m = Some (map_of (results ! i) m)))
       \<and> (\<exists>folds. split N X y = Inr folds
            \<and> (\<forall>i<length folds. \<exists>q X_test y_test.
                  take_rows X (snd (folds ! i)) = Inr X_test
                \<and> take_rows y (snd (folds ! i)) = Inr y_test
                \<and> test_pipeline sk ops q X_test y_test binary kw = Inr (results ! i)))"
proof -
  from run obtain folds where sp: "split N X y = Inr folds"
    and loop: "cv_loop sk ops X y binary kw metrics folds pipeline (new_dataframe metrics) []
                 = Inr (df, results, pipeline')"
    by (auto simp: cross_validate_pipeline_def then_do_Inr_iff Let_def N metrics)
  have sub: "set metrics \<subseteq> set (columns (new_dataframe metrics))"
    by (simp add: new_dataframe_def)
  note r = cv_loop_result[OF loop sub]
  from contract sp have n: "int (length folds) = N" by blast
  from r have len: "length results = length folds" by simp
  from r have rws: "rows df = map (summary_row metrics) results"
    by (simp add: new_dataframe_def)
  from r have cols: "columns df = metrics" by (simp add: new_dataframe_def)
  have cells: "rows df ! i = summary_row metrics (results ! i)
          \<and> (\<forall>m\<in>set metrics. map_of (rows df ! i) m = Some (map_of (results ! i) m))"
    if "i < length results" for i
    using that by (simp add: rws summary_row_map_of)
  from r have order: "\<forall>i<length folds. \<exists>q X_test y_test.
                  take_rows X (snd (folds ! i)) = Inr X_test
                \<and> take_rows y (snd (folds ! i)) = Inr y_test
                \<and> test_pipeline sk ops q X_test y_test binary kw = Inr (results ! i)"
    by simp
  show ?thesis using n len rws cols cells sp order by auto
qed

lemma fold_metrics_example:
  "get_metrics_binary sk_instance [0, 1] [0, 0] \<lparr>ncols = 2, mrows = [[Fin 1, Fin 0], [Fin 1, Fin 0]]\<rparr> False
     = Inr fold_result"
  by (simp add: get_metrics_binary_def Let_def sk_instance_def sk_accuracy_score_def ratio_def
      np_unique_def any_isnan_def is_nan_def fold_result_def)

lemma test_pipeline_example:
  "test_pipeline sk_instance first_label_ops 0 [a, b] [0, 1] True
      \<lparr>kw_include_per_class = None, kw_include_curves = None\<rparr> = Inr fold_result"
  using fold_metrics_example
  by (simp add: test_pipeline_def first_label_ops_def get_metrics_def flag_def Let_def
      numeral_2_eq_2)

lemma cross_validate_example:
  "cross_validate_pipeline sk_instance example_constants halves first_label_ops 1
     [10, 11, 12, 13] [0, 1, 0, 1] True None
     \<lparr>kw_include_per_class = None, kw_include_curves = None\<rparr>
   = Inr (\<lparr>columns = [ACCURACY, F1, ROC_CURVE],
            rows = [[(ACCURACY, Some (Scalar (Fin (1 / 2)))), (F1, Some (Scalar (Fin (2 / 3)))),
                     (ROC_CURVE, None)],
                    [(ACCURACY, Some (Scalar (Fin (1 / 2)))), (F1, Some (Scalar (Fin (2 / 3)))),
                     (ROC_CURVE, None)]]\<rparr>,
          [fold_result, fold_result], 0)"
proof -
  have fit: "fit first_label_ops p X [0, 1] = Inr 0" for p and X :: "nat list"
    by (simp add: first_label_ops_def)
  have row: "summary_row [ACCURACY, F1, ROC_CURVE] fold_result
     = [(ACCURACY, Some (Scalar (Fin (1 / 2)))), (F1, Some (Scalar (Fin (2 / 3)))), (ROC_CURVE, None)]"
    by (simp add: summary_row_def fold_result_def)
  show ?thesis
    by (simp add: cross_validate_pipeline_def example_constants_def halves_def Let_def
        fit test_pipeline_example row new_dataframe_def df_append_def)
qed

theorem cross_validate_pipeline_summary_witness:
  "\<exists>df results p. cross_validate_pipeline sk_instance example_constants halves first_label_ops 1
     [10, 11, 12, 13] [0, 1, 0, 1] True None
     \<lparr>kw_include_per_class = None, kw_include_curves = None\<rparr> = Inr (df, results, p)
   \<and> length (rows df) = 2 \<and> length results = 2 \<and> columns df = [ACCURACY, F1, ROC_CURVE]
   \<and> map_of (rows df ! 1) ROC_CURVE = Some None
   \<and> map_of (results ! 1) ROC_CURVE = None"
proof -
  have N: "(2::int) = (case None of None \<Rightarrow> N_FOLDS_DEFAULT example_constants | Some n \<Rightarrow> n)"
    by (simp add: example_constants_def)
  have contract: "\<forall>folds. halves 2 [10, 11, 12, 13] [0, 1, 0, 1] = Inr folds \<longrightarrow> int (length folds) = 2"
    by (auto simp: halves_def)
  have metrics: "[ACCURACY, F1, ROC_CURVE]
                 = (if True then METRICS_BINARY example_constants else METRICS_MULTICLASS example_constants)"
    by (simp add: example_constants_def)
  note t = cross_validate_pipeline_summary[OF cross_validate_example N contract metrics]
  show ?thesis using t cross_validate_example by (simp add: fold_result_def)
qed

end
